theory Spec2Isabelle
  imports Main "HOL-Library.Word" "HOL-Library.Sublist"
begin

unbundle bit_operations_syntax

chapter \<open>The model\<close>

section \<open>Python control flow shared by all modules\<close>

text \<open>
  Every module of BackupX reports a failure by writing to one of the two loggers and
  then calling \<^verbatim>\<open>sys.exit(1)\<close>. In Python \<^verbatim>\<open>sys.exit\<close> raises
  \<^verbatim>\<open>SystemExit\<close>, which derives from \<^verbatim>\<open>BaseException\<close> and is therefore not
  caught by an \<^verbatim>\<open>except Exception\<close> clause. A raised exception is a value of
  \<open>py_exc\<close>; a computation that can raise returns \<open>py_exc + 'a\<close>.
\<close>

datatype py_exc =
    SystemExit int
  | ValueError string
  | KeyError string
  | OSError string
  | OtherError string

fun is_Exception :: "py_exc \<Rightarrow> bool" where
  "is_Exception (SystemExit n) = False"
| "is_Exception e = True"

fun exc_str :: "py_exc \<Rightarrow> string" where
  "exc_str (SystemExit n) = ''''"
| "exc_str (ValueError m) = m"
| "exc_str (KeyError m) = m"
| "exc_str (OSError m) = m"
| "exc_str (OtherError m) = m"

datatype log_rec = LogError string | LogInfo string


section \<open>Python string functions\<close>

text \<open>\<^verbatim>\<open>s.split(c)\<close> for a one-character separator: never empty, \<^verbatim>\<open>''.split(c) == ['']\<close>.\<close>

fun split_on :: "char \<Rightarrow> string \<Rightarrow> string list" where
  "split_on c [] = [[]]"
| "split_on c (x # xs) =
     (if x = c then [] # split_on c xs
      else (case split_on c xs of
              [] \<Rightarrow> [[x]]
            | w # ws \<Rightarrow> (x # w) # ws))"

text \<open>\<^verbatim>\<open>s.rfind(c)\<close>: the last index of the character, or -1.\<close>

fun rfind :: "string \<Rightarrow> char \<Rightarrow> int" where
  "rfind [] c = -1"
| "rfind (x # xs) c =
     (let r = rfind xs c in if r \<ge> 0 then r + 1 else if x = c then 0 else -1)"

text \<open>\<^verbatim>\<open>os.path.splitext\<close> (\<^verbatim>\<open>genericpath._splitext\<close> with separator \<^verbatim>\<open>/\<close>): the
  extension starts at the last dot after the last slash, unless only dots precede it
  in the file name.\<close>

definition splitext :: "string \<Rightarrow> string \<times> string" where
  "splitext p =
     (let sepIndex = rfind p (CHR ''/'');
          dotIndex = rfind p (CHR ''.'')
      in if dotIndex > sepIndex \<and>
            list_ex (\<lambda>ch. ch \<noteq> CHR ''.'')
              (take (nat (dotIndex - (sepIndex + 1))) (drop (nat (sepIndex + 1)) p))
         then (take (nat dotIndex) p, drop (nat dotIndex) p)
         else (p, []))"

section \<open>datetime\<close>

record datetime =
  year :: int
  month :: int
  day :: int
  hour :: int
  minute :: int
  second :: int
  microsecond :: int

definition is_leap :: "int \<Rightarrow> bool" where
  "is_leap y = (y mod 4 = 0 \<and> (y mod 100 \<noteq> 0 \<or> y mod 400 = 0))"

definition days_in_month :: "int \<Rightarrow> int \<Rightarrow> int" where
  "days_in_month y m =
     (if m = 2 then (if is_leap y then 29 else 28)
      else if m = 4 \<or> m = 6 \<or> m = 9 \<or> m = 11 then 30 else 31)"

definition days_before_year :: "int \<Rightarrow> int" where
  "days_before_year y = (y - 1) * 365 + (y - 1) div 4 - (y - 1) div 100 + (y - 1) div 400"

definition days_before_month :: "int \<Rightarrow> int \<Rightarrow> int" where
  "days_before_month y m =
     [0, 0, 31, 59, 90, 120, 151, 181, 212, 243, 273, 304, 334] ! nat m
       + (if m > 2 \<and> is_leap y then 1 else 0)"

definition toordinal :: "datetime \<Rightarrow> int" where
  "toordinal d = days_before_year (year d) + days_before_month (year d) (month d) + day d"

text \<open>A moment as Python's date arithmetic sees it: the proleptic Gregorian ordinal of
  the day, then the time of day. Naive datetimes compare in this order.\<close>

type_synonym moment = "int \<times> int \<times> int \<times> int \<times> int"

definition moment_of :: "datetime \<Rightarrow> moment" where
  "moment_of d = (toordinal d, hour d, minute d, second d, microsecond d)"

fun moment_less :: "moment \<Rightarrow> moment \<Rightarrow> bool" where
  "moment_less (d1, h1, m1, s1, u1) (d2, h2, m2, s2, u2) =
     (d1 < d2 \<or> (d1 = d2 \<and> (h1 < h2 \<or> (h1 = h2 \<and> (m1 < m2 \<or> (m1 = m2 \<and>
        (s1 < s2 \<or> (s1 = s2 \<and> u1 < u2))))))))"

text \<open>\<^verbatim>\<open>now - timedelta(days=90)\<close>: the ordinal moves back by 90 and the time of day
  stays; a result before year 1 is an \<^verbatim>\<open>OverflowError\<close>.\<close>

definition minus_days :: "datetime \<Rightarrow> int \<Rightarrow> py_exc + moment" where
  "minus_days d n =
     (if toordinal d - n < 1 then Inl (OtherError ''date value out of range'')
      else Inr (toordinal d - n, hour d, minute d, second d, microsecond d))"

section \<open>strptime\<close>

definition is_digit :: "char \<Rightarrow> bool" where
  "is_digit c = (48 \<le> (of_char c :: nat) \<and> (of_char c :: nat) \<le> 57)"

definition digit_in :: "char \<Rightarrow> nat \<Rightarrow> nat \<Rightarrow> bool" where
  "digit_in c lo hi = (48 + lo \<le> (of_char c :: nat) \<and> (of_char c :: nat) \<le> 48 + hi)"

definition int_of_digits :: "string \<Rightarrow> int" where
  "int_of_digits s =
     foldl (\<lambda>a c. 10 * a + (int (of_char c) - 48)) 0 (filter is_digit s)"

fun re_Y :: "string \<Rightarrow> bool" where
  "re_Y [a, b, c, d] = (is_digit a \<and> is_digit b \<and> is_digit c \<and> is_digit d)"
| "re_Y s = False"

fun re_m :: "string \<Rightarrow> bool" where
  "re_m [a] = digit_in a 1 9"
| "re_m [a, b] = ((digit_in a 1 1 \<and> digit_in b 0 2) \<or> (digit_in a 0 0 \<and> digit_in b 1 9))"
| "re_m s = False"

fun re_d :: "string \<Rightarrow> bool" where
  "re_d [a] = digit_in a 1 9"
| "re_d [a, b] =
     ((digit_in a 3 3 \<and> digit_in b 0 1) \<or> (digit_in a 1 2 \<and> is_digit b)
      \<or> (digit_in a 0 0 \<and> digit_in b 1 9) \<or> (a = CHR '' '' \<and> digit_in b 1 9))"
| "re_d s = False"

fun re_H :: "string \<Rightarrow> bool" where
  "re_H [a] = is_digit a"
| "re_H [a, b] = ((digit_in a 2 2 \<and> digit_in b 0 3) \<or> (digit_in a 0 1 \<and> is_digit b))"
| "re_H s = False"

fun re_M :: "string \<Rightarrow> bool" where
  "re_M [a] = is_digit a"
| "re_M [a, b] = (digit_in a 0 5 \<and> is_digit b)"
| "re_M s = False"

fun re_S :: "string \<Rightarrow> bool" where
  "re_S [a] = is_digit a"
| "re_S [a, b] = ((digit_in a 6 6 \<and> digit_in b 0 1) \<or> (digit_in a 0 5 \<and> is_digit b))"
| "re_S s = False"

definition strptime :: "string \<Rightarrow> py_exc + datetime" where
  "strptime s =
     (case split_on (CHR ''_'') s of
        [ymd, hms] \<Rightarrow>
          (case (split_on (CHR ''-'') ymd, split_on (CHR ''-'') hms) of
             ([Y, m, d], [H, M, S]) \<Rightarrow>
               if re_Y Y \<and> re_m m \<and> re_d d \<and> re_H H \<and> re_M M \<and> re_S S then
                 (let y = int_of_digits Y; mo = int_of_digits m; dd = int_of_digits d;
                      ss = int_of_digits S
                  in if y < 1 then Inl (ValueError ''year is out of range'')
                     else if dd > days_in_month y mo
                     then Inl (ValueError ''day is out of range for month'')
                     else if ss > 59 then Inl (ValueError ''second must be in 0..59'')
                     else Inr \<lparr>year = y, month = mo, day = dd, hour = int_of_digits H,
                               minute = int_of_digits M, second = ss, microsecond = 0\<rparr>)
               else Inl (ValueError ''time data does not match format'')
           | _ \<Rightarrow> Inl (ValueError ''time data does not match format''))
      | _ \<Rightarrow> Inl (ValueError ''time data does not match format''))"


section \<open>RetentionSweeper: pruning old backups\<close>

text \<open>
  The directory as \<^verbatim>\<open>delete_backups\<close> sees it: whether \<^verbatim>\<open>os.path.isdir\<close> holds, and the
  names \<^verbatim>\<open>os.listdir\<close> returns, in that order, each with the answer of
  \<^verbatim>\<open>os.path.isfile\<close>. \<^verbatim>\<open>os.remove\<close> takes the entry out.
\<close>

record sweep_world =
  is_dir :: bool
  entries :: "(string \<times> bool) list"
  sweep_log :: "log_rec list"

definition isfile_in :: "sweep_world \<Rightarrow> string \<Rightarrow> bool" where
  "isfile_in w name = (map_of (entries w) name = Some True)"

definition remove_in :: "string \<Rightarrow> sweep_world \<Rightarrow> sweep_world" where
  "remove_in name w = w\<lparr>entries := filter (\<lambda>e. fst e \<noteq> name) (entries w)\<rparr>"

definition sweep_logs :: "log_rec \<Rightarrow> sweep_world \<Rightarrow> sweep_world" where
  "sweep_logs r w = w\<lparr>sweep_log := sweep_log w @ [r]\<rparr>"

text \<open>The body of \<^verbatim>\<open>for file in os.listdir(path_dir)\<close>. \<^verbatim>\<open>continue\<close> goes on with the
  rest of the listing; an exception of \<^verbatim>\<open>strptime\<close> leaves the loop.\<close>

fun sweep_loop ::
  "moment \<Rightarrow> string list \<Rightarrow> sweep_world \<Rightarrow> (py_exc + unit) \<times> sweep_world" where
  "sweep_loop threshold [] w = (Inr (), w)"
| "sweep_loop threshold (file # rest) w =
     (if isfile_in w file then
        (let base = fst (splitext file);
             parts = split_on (CHR ''_'') base
         in if length parts < 3 then sweep_loop threshold rest w
            else
              (case strptime (parts ! 1 @ ''_'' @ parts ! 2) of
                 Inl e \<Rightarrow> (Inl e, w)
               | Inr file_datetime \<Rightarrow>
                   if moment_less (moment_of file_datetime) threshold
                   then sweep_loop threshold rest
                          (sweep_logs (LogInfo (''Deleted old backup: '' @ file))
                             (remove_in file w))
                   else sweep_loop threshold rest w))
      else sweep_loop threshold rest w)"

text \<open>\<^verbatim>\<open>delete_backups\<close>: one \<^verbatim>\<open>try\<close> around the whole function body; the handler
  \<^verbatim>\<open>except Exception\<close> logs and the function returns.\<close>

definition delete_backups ::
  "datetime \<Rightarrow> string \<Rightarrow> sweep_world \<Rightarrow> (py_exc + unit) \<times> sweep_world" where
  "delete_backups now path_dir w =
     (let body =
        (if \<not> is_dir w
         then (Inr (), sweep_logs (LogError (''Directory not found: '' @ path_dir)) w)
         else (case minus_days now 90 of
                 Inl e \<Rightarrow> (Inl e, w)
               | Inr threshold \<Rightarrow> sweep_loop threshold (map fst (entries w)) w))
      in case body of
           (Inr u, w1) \<Rightarrow> (Inr (), w1)
         | (Inl e, w1) \<Rightarrow>
             if is_Exception e
             then (Inr (), sweep_logs (LogError (''Error: '' @ exc_str e)) w1)
             else (Inl e, w1))"


section \<open>posixpath\<close>

text \<open>\<^verbatim>\<open>'/'.join(comps)\<close>\<close>

fun join_sep :: "string list \<Rightarrow> string" where
  "join_sep [] = []"
| "join_sep [c] = c"
| "join_sep (c # d # cs) = c @ CHR ''/'' # join_sep (d # cs)"

definition startswith :: "string \<Rightarrow> string \<Rightarrow> bool" where
  "startswith s pre = (take (length pre) s = pre)"

definition endswith :: "string \<Rightarrow> string \<Rightarrow> bool" where
  "endswith s suf = (length suf \<le> length s \<and> drop (length s - length suf) s = suf)"

text \<open>\<^verbatim>\<open>s.rstrip(chars)\<close>\<close>

definition rstrip :: "char set \<Rightarrow> string \<Rightarrow> string" where
  "rstrip cs s = rev (dropWhile (\<lambda>c. c \<in> cs) (rev s))"

text \<open>\<^verbatim>\<open>os.path.join(a, b)\<close>\<close>

definition path_join :: "string \<Rightarrow> string \<Rightarrow> string" where
  "path_join a b =
     (if startswith b ''/'' then b
      else if a = [] \<or> endswith a ''/'' then a @ b
      else a @ ''/'' @ b)"

text \<open>\<^verbatim>\<open>os.path.normpath\<close>: the loop body over the components, then the function.\<close>

definition norm_step :: "bool \<Rightarrow> string list \<Rightarrow> string \<Rightarrow> string list" where
  "norm_step initial_slashes new_comps c =
     (if c = [] \<or> c = ''.'' then new_comps
      else if c \<noteq> ''..'' \<or> (\<not> initial_slashes \<and> new_comps = [])
              \<or> (new_comps \<noteq> [] \<and> last new_comps = ''..'')
      then new_comps @ [c]
      else if new_comps \<noteq> [] then butlast new_comps
      else new_comps)"

definition normpath :: "string \<Rightarrow> string" where
  "normpath path =
     (if path = [] then ''.''
      else
        (let initial_slashes =
               (if startswith path ''/''
                then (if startswith path ''//'' \<and> \<not> startswith path ''///'' then 2 else 1)
                else (0::nat));
             comps = foldl (norm_step (initial_slashes \<noteq> 0)) [] (split_on (CHR ''/'') path);
             p = replicate initial_slashes (CHR ''/'') @ join_sep comps
         in if p = [] then ''.'' else p))"

text \<open>\<^verbatim>\<open>os.path.abspath\<close>, with the working directory of the process as an argument.\<close>

definition abspath :: "string \<Rightarrow> string \<Rightarrow> string" where
  "abspath cwd path =
     normpath (if startswith path ''/'' then path else path_join cwd path)"

text \<open>\<^verbatim>\<open>os.path.commonpath\<close>: the longest common sub-path of the component lists, empty
  components and \<^verbatim>\<open>.\<close> dropped.\<close>

definition path_parts :: "string \<Rightarrow> string list" where
  "path_parts p = filter (\<lambda>c. c \<noteq> [] \<and> c \<noteq> ''.'') (split_on (CHR ''/'') p)"

fun common_prefix_all :: "string list list \<Rightarrow> string list" where
  "common_prefix_all [] = []"
| "common_prefix_all [s] = s"
| "common_prefix_all (s # t # ss) = longest_common_prefix s (common_prefix_all (t # ss))"

definition commonpath :: "string list \<Rightarrow> py_exc + string" where
  "commonpath paths =
     (case paths of
        [] \<Rightarrow> Inl (ValueError ''commonpath() arg is an empty sequence'')
      | p # ps \<Rightarrow>
          if \<not> list_all (\<lambda>q. startswith q ''/'' = startswith p ''/'') ps
          then Inl (ValueError ''Can't mix absolute and relative paths'')
          else Inr ((if startswith p ''/'' then ''/'' else [])
                    @ join_sep (common_prefix_all (map path_parts paths))))"

text \<open>\<^verbatim>\<open>os.path.dirname\<close> and \<^verbatim>\<open>os.path.basename\<close>\<close>

definition dirname :: "string \<Rightarrow> string" where
  "dirname p =
     (let i = nat (rfind p (CHR ''/'') + 1);
          head = take i p
      in if head \<noteq> [] \<and> head \<noteq> replicate (length head) (CHR ''/'')
         then rstrip {CHR ''/''} head else head)"

definition basename :: "string \<Rightarrow> string" where
  "basename p = drop (nat (rfind p (CHR ''/'') + 1)) p"

text \<open>\<^verbatim>\<open>os.path.relpath(path, start)\<close>\<close>

definition relpath :: "string \<Rightarrow> string \<Rightarrow> string \<Rightarrow> py_exc + string" where
  "relpath cwd path start =
     (if path = [] then Inl (ValueError ''no path specified'')
      else
        (let start_list = filter (\<lambda>x. x \<noteq> []) (split_on (CHR ''/'') (abspath cwd start));
             path_list = filter (\<lambda>x. x \<noteq> []) (split_on (CHR ''/'') (abspath cwd path));
             i = length (longest_common_prefix start_list path_list);
             rel_list = replicate (length start_list - i) ''..'' @ drop i path_list
         in case rel_list of
              [] \<Rightarrow> Inr ''.''
            | r # rs \<Rightarrow> Inr (foldl path_join r rs)))"


section \<open>The file system\<close>

text \<open>
  A file system without symbolic links: a partial map from locations to nodes, a
  location being the list of the names on the way from the root. A path string is
  resolved lexically, as \<^verbatim>\<open>os.path.abspath\<close> does; the root is always a directory.
\<close>

type_synonym byte = "8 word"

datatype node = File "byte list" | Dir

type_synonym filesystem = "string list \<Rightarrow> node option"

record world =
  fs :: filesystem
  cwd :: string
  wlog :: "log_rec list"

definition logs :: "log_rec \<Rightarrow> world \<Rightarrow> world" where
  "logs r w = w\<lparr>wlog := wlog w @ [r]\<rparr>"

definition locate :: "string \<Rightarrow> string \<Rightarrow> string list" where
  "locate wd path = path_parts (abspath wd path)"

definition lookup :: "filesystem \<Rightarrow> string list \<Rightarrow> node option" where
  "lookup f loc = (if loc = [] then Some Dir else f loc)"

text \<open>What \<^verbatim>\<open>os.stat\<close> finds at a path: nothing for the empty path, and nothing for a
  regular file named with a trailing slash.\<close>

definition node_at :: "world \<Rightarrow> string \<Rightarrow> node option" where
  "node_at w path =
     (if path = [] then None
      else (case lookup (fs w) (locate (cwd w) path) of
              Some (File c) \<Rightarrow> if endswith path ''/'' then None else Some (File c)
            | r \<Rightarrow> r))"

definition isdir :: "world \<Rightarrow> string \<Rightarrow> bool" where
  "isdir w path = (node_at w path = Some Dir)"

definition isfile :: "world \<Rightarrow> string \<Rightarrow> bool" where
  "isfile w path = (case node_at w path of Some (File c) \<Rightarrow> True | _ \<Rightarrow> False)"

definition path_exists :: "world \<Rightarrow> string \<Rightarrow> bool" where
  "path_exists w path = (node_at w path \<noteq> None)"

text \<open>\<^verbatim>\<open>os.makedirs(name, exist_ok=True)\<close>: every missing directory on the way is
  created; a regular file on the way is an \<^verbatim>\<open>OSError\<close>, and the directories made before
  it stay.\<close>

fun mkdirs :: "string list \<Rightarrow> string list \<Rightarrow> filesystem \<Rightarrow> (py_exc + unit) \<times> filesystem" where
  "mkdirs up [] f = (Inr (), f)"
| "mkdirs up (c # cs) f =
     (case f (up @ [c]) of
        Some (File d) \<Rightarrow> (Inl (OSError ''File exists''), f)
      | Some Dir \<Rightarrow> mkdirs (up @ [c]) cs f
      | None \<Rightarrow> mkdirs (up @ [c]) cs (f(up @ [c] \<mapsto> Dir)))"

definition makedirs :: "string \<Rightarrow> world \<Rightarrow> (py_exc + unit) \<times> world" where
  "makedirs name w =
     (if name = [] then (Inl (OSError ''No such file or directory''), w)
      else (case mkdirs [] (locate (cwd w) name) (fs w) of
              (r, f) \<Rightarrow> (r, w\<lparr>fs := f\<rparr>)))"

text \<open>\<^verbatim>\<open>open(path, 'wb')\<close>: the file is created or truncated. The directory that holds it
  must exist, and the path must not name a directory.\<close>

definition open_wb :: "string \<Rightarrow> world \<Rightarrow> (py_exc + string list) \<times> world" where
  "open_wb path w =
     (let loc = locate (cwd w) path
      in if path = [] then (Inl (OSError ''No such file or directory''), w)
         else if endswith path ''/'' \<or> loc = [] then (Inl (OSError ''Is a directory''), w)
         else if lookup (fs w) (butlast loc) \<noteq> Some Dir
         then (Inl (OSError ''No such file or directory''), w)
         else if lookup (fs w) loc = Some Dir then (Inl (OSError ''Is a directory''), w)
         else (Inr loc, w\<lparr>fs := (fs w)(loc \<mapsto> File [])\<rparr>))"

definition write_at :: "string list \<Rightarrow> byte list \<Rightarrow> world \<Rightarrow> world" where
  "write_at loc content w = w\<lparr>fs := (fs w)(loc \<mapsto> File content)\<rparr>"

section \<open>SecureExtractor\<close>

text \<open>\<^verbatim>\<open>is_within_directory\<close>, the same function in \<^verbatim>\<open>extract_zip_archive.py\<close> and in
  \<^verbatim>\<open>extract_7z_archive.py\<close>.\<close>

definition is_within_directory :: "string \<Rightarrow> string \<Rightarrow> string \<Rightarrow> py_exc + bool" where
  "is_within_directory wd base_dir target_path =
     (let base_dir = abspath wd base_dir;
          target_path = abspath wd target_path
      in case commonpath [base_dir] of
           Inl e \<Rightarrow> Inl e
         | Inr a \<Rightarrow>
             (case commonpath [base_dir, target_path] of
                Inl e \<Rightarrow> Inl e
              | Inr b \<Rightarrow> Inr (a = b)))"





text \<open>Reading a file of the file system, as the archive libraries do when they open one.\<close>

definition read_file :: "world \<Rightarrow> string \<Rightarrow> py_exc + byte list" where
  "read_file w path =
     (case node_at w path of
        Some (File c) \<Rightarrow> Inr c
      | Some Dir \<Rightarrow> Inl (OSError ''Is a directory'')
      | None \<Rightarrow> Inl (OSError ''No such file or directory''))"


text \<open>The \<^verbatim>\<open>try\<close> \<open>\<dots>\<close> \<^verbatim>\<open>except Exception\<close> around the body of an extractor.\<close>

definition extraction_handler :: "string \<Rightarrow> (py_exc + unit) \<times> world \<Rightarrow> (py_exc + unit) \<times> world" where
  "extraction_handler archive_name r =
     (case r of
        (Inl e, w1) \<Rightarrow>
          if is_Exception e
          then (Inl (SystemExit 1),
                logs (LogError (''Error extracting archive '' @ archive_name @ '': '' @ exc_str e)) w1)
          else (Inl e, w1)
      | (Inr u, w1) \<Rightarrow> (Inr u, w1))"


text \<open>
  py7zr: \<open>names7z\<close> decodes the archive file and gives \<^verbatim>\<open>archive.getnames()\<close>;
  \<open>extractall\<close> is \<^verbatim>\<open>archive.extractall(path=destination_dir)\<close>, whatever the library
  does with the file system.
\<close>

record sevenz_lib =
  names7z :: "byte list \<Rightarrow> py_exc + string list"
  extractall :: "byte list \<Rightarrow> string \<Rightarrow> world \<Rightarrow> (py_exc + unit) \<times> world"

text \<open>The first loop of \<^verbatim>\<open>extract_7z\<close>: it only checks.\<close>

fun check_members :: "string \<Rightarrow> string list \<Rightarrow> world \<Rightarrow> (py_exc + unit) \<times> world" where
  "check_members destination_dir [] w = (Inr (), w)"
| "check_members destination_dir (member # later) w =
     (let target_path = path_join destination_dir member
      in case is_within_directory (cwd w) destination_dir target_path of
           Inl e \<Rightarrow> (Inl e, w)
         | Inr False \<Rightarrow>
             (Inl (SystemExit 1),
              logs (LogError (''Zip-Slip attempt detected in: '' @ member)) w)
         | Inr True \<Rightarrow> check_members destination_dir later w)"

definition extract_7z ::
  "sevenz_lib \<Rightarrow> string \<Rightarrow> string \<Rightarrow> world \<Rightarrow> (py_exc + unit) \<times> world" where
  "extract_7z lib source_file destination_dir w =
     extraction_handler source_file
       (case read_file w source_file of
          Inl e \<Rightarrow> (Inl e, w)
        | Inr bytes \<Rightarrow>
            (case names7z lib bytes of
               Inl e \<Rightarrow> (Inl e, w)
             | Inr file_list \<Rightarrow>
                 (case check_members destination_dir file_list w of
                    (Inl e, w1) \<Rightarrow> (Inl e, w1)
                  | (Inr u, w1) \<Rightarrow>
                      (case extractall lib bytes destination_dir w1 of
                         (Inl e, w2) \<Rightarrow> (Inl e, w2)
                       | (Inr u, w2) \<Rightarrow>
                           (Inr (), logs (LogInfo (''Archive '' @ source_file
                                  @ '' extracted successfully to '' @ destination_dir)) w2)))))"

section \<open>TransferClient: SSH connection with retry\<close>

text \<open>
  The network is outside the program: the outcome of each successive call of
  \<^verbatim>\<open>RSAKey.from_private_key_file\<close> / \<^verbatim>\<open>client.connect\<close> is given by the list
  \<open>connects\<close>, consumed one element per attempt. An exhausted list counts as a failed
  connection. \<open>sleeps\<close> records every \<^verbatim>\<open>time.sleep\<close>.
\<close>

datatype attempt = Connects | Fails string

datatype ssh_client = SSHClient string

record ssh_env =
  connects :: "attempt list"
  ssh_log :: "log_rec list"
  sleeps :: "nat list"

definition ssh_logs :: "log_rec \<Rightarrow> ssh_env \<Rightarrow> ssh_env" where
  "ssh_logs r w = w\<lparr>ssh_log := ssh_log w @ [r]\<rparr>"

text \<open>\<^verbatim>\<open>SSHBackupManager.create_ssh_client\<close>: any exception of paramiko is caught inside,
  logged, and turned into \<^verbatim>\<open>sys.exit(1)\<close>.\<close>

definition create_ssh_client :: "string \<Rightarrow> ssh_env \<Rightarrow> (py_exc + ssh_client) \<times> ssh_env" where
  "create_ssh_client hostname w =
     (case connects w of
        [] \<Rightarrow>
          (Inl (SystemExit 1),
           ssh_logs (LogError (''SSH connection failed: '' @ ''no route'')) w)
      | Connects # rest \<Rightarrow>
          (Inr (SSHClient hostname),
           ssh_logs (LogInfo (''SSH connection established with '' @ hostname))
             (w\<lparr>connects := rest\<rparr>))
      | Fails msg # rest \<Rightarrow>
          (Inl (SystemExit 1),
           ssh_logs (LogError (''SSH connection failed: '' @ msg)) (w\<lparr>connects := rest\<rparr>)))"

text \<open>\<^verbatim>\<open>backupx.establish_ssh_connection\<close>: the loop \<^verbatim>\<open>for attempt in range(1, 4)\<close>.
  The \<^verbatim>\<open>except Exception\<close> handler (log, then exit on the third attempt, else sleep two
  seconds) only runs for an exception that is an \<^verbatim>\<open>Exception\<close>; a \<^verbatim>\<open>SystemExit\<close>
  leaves the function. When the loop ends without \<^verbatim>\<open>break\<close> the function returns the
  initial \<^verbatim>\<open>ssh = None\<close>.\<close>

fun establish_loop ::
  "nat list \<Rightarrow> string \<Rightarrow> ssh_env \<Rightarrow> (py_exc + ssh_client option) \<times> ssh_env" where
  "establish_loop [] host w = (Inr None, w)"
| "establish_loop (attempt # later) host w =
     (case create_ssh_client host w of
        (Inr client, w1) \<Rightarrow> (Inr (Some client), w1)
      | (Inl e, w1) \<Rightarrow>
          if is_Exception e then
            (let w2 = ssh_logs (LogError (''SSH connection attempt failed: '' @ exc_str e)) w1
             in if attempt = 3
                then (Inl (SystemExit 1),
                      ssh_logs (LogError ''Max SSH connection attempts reached. Aborting'') w2)
                else establish_loop later host (w2\<lparr>sleeps := sleeps w2 @ [2]\<rparr>))
          else (Inl e, w1))"

definition establish_ssh_connection ::
  "string \<Rightarrow> ssh_env \<Rightarrow> (py_exc + ssh_client option) \<times> ssh_env" where
  "establish_ssh_connection host w = establish_loop [1, 2, 3] host w"


chapter \<open>Properties\<close>

section \<open>Properties of the SSH connection\<close>

lemma create_ssh_client_never_Exception:
  "fst (create_ssh_client host w) = Inl e \<Longrightarrow> \<not> is_Exception e"
  by (auto simp: create_ssh_client_def split: list.splits attempt.splits)

lemma establish_first_failure_exits:
  assumes "connects w = Fails msg # rest"
  shows "establish_ssh_connection host w =
           (Inl (SystemExit 1),
            ssh_logs (LogError (''SSH connection failed: '' @ msg)) (w\<lparr>connects := rest\<rparr>))"
  using assms by (simp add: establish_ssh_connection_def create_ssh_client_def)

text \<open>
  Claim C5. The claim: a connection attempt that fails once or twice and then succeeds
  lets the upload proceed, and only three consecutive failures abort. On the code, with
  a first attempt that fails and a second and third that would succeed, the run ends
  with exit status 1 after the first attempt: the two later outcomes are still unread,
  nothing has slept, and the only log record is the one of \<open>create_ssh_client\<close>.
\<close>

theorem establish_ssh_connection_no_retry:
  "establish_ssh_connection ''backup.example.org''
     \<lparr>connects = [Fails ''timed out'', Connects, Connects], ssh_log = [], sleeps = []\<rparr>
   = (Inl (SystemExit 1),
      \<lparr>connects = [Connects, Connects],
       ssh_log = [LogError ''SSH connection failed: timed out''],
       sleeps = []\<rparr>)"
  by (simp add: establish_ssh_connection_def create_ssh_client_def ssh_logs_def)


section \<open>Properties of the retention sweep\<close>

definition june_2024 :: datetime where
  "june_2024 = \<lparr>year = 2024, month = 6, day = 1, hour = 12, minute = 0, second = 0,
                 microsecond = 0\<rparr>"

lemmas retention_eval =
  delete_backups_def minus_days_def toordinal_def days_before_year_def
  days_before_month_def is_leap_def june_2024_def isfile_in_def splitext_def
  strptime_def is_digit_def digit_in_def int_of_digits_def days_in_month_def
  moment_of_def remove_in_def sweep_logs_def Let_def

lemma sweep_loop_raises_Exception:
  "sweep_loop threshold files w = (Inl e, w') \<Longrightarrow> is_Exception e"
proof (induction files arbitrary: w)
  case Nil
  then show ?case by simp
next
  case (Cons name rest)
  then show ?case
    by (auto simp: Let_def strptime_def split: if_splits sum.splits list.splits prod.splits)
qed

lemma delete_backups_returns: "fst (delete_backups now path_dir w) = Inr ()"
  by (auto simp: delete_backups_def minus_days_def Let_def
           dest: sweep_loop_raises_Exception split: sum.splits prod.splits)

text \<open>
  Claim C6. The claim: a file whose name cannot be parsed is skipped and the sweep goes
  on over the remaining files. On the code, a name with three underscore-separated
  parts and no timestamp (\<open>notes_for_admin.txt\<close>) raises in \<open>strptime\<close>, the exception
  leaves the loop, and the backup listed after it, 152 days old on 2024-06-01, stays.
\<close>

theorem delete_backups_stops_at_unparseable:
  "delete_backups june_2024 ''/srv/backups''
     \<lparr>is_dir = True,
      entries = [(''notes_for_admin.txt'', True), (''a_2024-01-01_00-00-00.zip'', True)],
      sweep_log = []\<rparr>
   = (Inr (),
      \<lparr>is_dir = True,
       entries = [(''notes_for_admin.txt'', True), (''a_2024-01-01_00-00-00.zip'', True)],
       sweep_log = [LogError ''Error: time data does not match format'']\<rparr>)"
  by (simp add: retention_eval)

text \<open>The same directory listed in the other order: the old backup is deleted before the
  unparseable name is reached.\<close>

lemma delete_backups_other_order:
  "delete_backups june_2024 ''/srv/backups''
     \<lparr>is_dir = True,
      entries = [(''a_2024-01-01_00-00-00.zip'', True), (''notes_for_admin.txt'', True)],
      sweep_log = []\<rparr>
   = (Inr (),
      \<lparr>is_dir = True,
       entries = [(''notes_for_admin.txt'', True)],
       sweep_log = [LogInfo ''Deleted old backup: a_2024-01-01_00-00-00.zip'',
                    LogError ''Error: time data does not match format'']\<rparr>)"
  by (simp add: retention_eval)


section \<open>Properties of paths\<close>

lemma split_on_nonempty: "split_on c s \<noteq> []"
  by (induction s) (auto split: list.splits)

lemma split_on_no_sep: "c \<notin> set w \<Longrightarrow> split_on c w = [w]"
  by (induction w) auto

lemma split_on_append:
  "c \<notin> set w \<Longrightarrow> split_on c (w @ c # rest) = w # split_on c rest"
  by (induction w) auto

lemma split_on_parts_no_sep: "x \<in> set (split_on c s) \<Longrightarrow> c \<notin> set x"
proof (induction s arbitrary: x)
  case Nil
  then show ?case by simp
next
  case (Cons a s)
  show ?case
  proof (cases "a = c")
    case True
    with Cons show ?thesis by auto
  next
    case False
    obtain w ws where sp: "split_on c s = w # ws"
      using split_on_nonempty [of c s] by (cases "split_on c s") auto
    with Cons False show ?thesis by auto
  qed
qed

lemma split_on_join:
  "cs \<noteq> [] \<Longrightarrow> \<forall>x\<in>set cs. CHR ''/'' \<notin> set x \<Longrightarrow> split_on (CHR ''/'') (join_sep cs) = cs"
proof (induction cs rule: join_sep.induct)
  case 1
  then show ?case by simp
next
  case (2 c)
  then show ?case by (simp add: split_on_no_sep)
next
  case (3 c d cs)
  then show ?case by (simp add: split_on_append)
qed

definition plain :: "string list \<Rightarrow> bool" where
  "plain cs = (\<forall>x\<in>set cs. x \<noteq> [] \<and> CHR ''/'' \<notin> set x)"

lemma join_sep_eq_Nil: "plain cs \<Longrightarrow> join_sep cs = [] \<Longrightarrow> cs = []"
  by (induction cs rule: join_sep.induct) (auto simp: plain_def)

lemma join_sep_inj:
  assumes "plain xs" "plain ys" "join_sep xs = join_sep ys"
  shows "xs = ys"
proof (cases "xs = [] \<or> ys = []")
  case True
  then show ?thesis using assms join_sep_eq_Nil by (metis join_sep.simps(1))
next
  case False
  then have ne: "xs \<noteq> []" "ys \<noteq> []" by auto
  have fx: "\<forall>x\<in>set xs. CHR ''/'' \<notin> set x" and fy: "\<forall>x\<in>set ys. CHR ''/'' \<notin> set x"
    using assms(1,2) unfolding plain_def by blast+
  have "xs = split_on (CHR ''/'') (join_sep xs)"
    by (rule split_on_join [OF ne(1) fx, symmetric])
  also have "\<dots> = split_on (CHR ''/'') (join_sep ys)"
    by (simp only: assms(3))
  also have "\<dots> = ys"
    by (rule split_on_join [OF ne(2) fy])
  finally show ?thesis .
qed

lemma plain_path_parts: "plain (path_parts p)"
  by (auto simp: plain_def path_parts_def dest: split_on_parts_no_sep)

lemma plain_prefix: "plain ys \<Longrightarrow> prefix xs ys \<Longrightarrow> plain xs"
  by (auto simp: plain_def prefix_def)

lemma lcp_eq_iff_prefix: "longest_common_prefix xs ys = xs \<longleftrightarrow> prefix xs ys"
  by (metis longest_common_prefix_prefix2 longest_common_prefix_max_prefix prefix_order.eq_iff
        longest_common_prefix_prefix1 prefix_order.order_refl)

lemma is_within_directory_prefix:
  assumes "startswith (abspath wd target_path) ''/'' = startswith (abspath wd base_dir) ''/''"
  shows "is_within_directory wd base_dir target_path =
           Inr (prefix (locate wd base_dir) (locate wd target_path))"
proof -
  let ?b = "path_parts (abspath wd base_dir)" and ?t = "path_parts (abspath wd target_path)"
  have pl: "plain ?b" "plain (longest_common_prefix ?b ?t)"
    using plain_path_parts plain_prefix longest_common_prefix_prefix1 by blast+
  have "(join_sep ?b = join_sep (longest_common_prefix ?b ?t)) = prefix ?b ?t"
    using join_sep_inj [OF pl] lcp_eq_iff_prefix [of ?b ?t] by auto
  then show ?thesis
    using assms by (simp add: is_within_directory_def commonpath_def locate_def Let_def)
qed

lemma startswith_slash_iff: "startswith s ''/'' \<longleftrightarrow> (\<exists>r. s = CHR ''/'' # r)"
  by (cases s) (auto simp: startswith_def)

lemma normpath_absolute: "startswith p ''/'' \<Longrightarrow> startswith (normpath p) ''/''"
  by (auto simp: normpath_def Let_def startswith_slash_iff numeral_2_eq_2)

lemma abspath_absolute: "startswith wd ''/'' \<Longrightarrow> startswith (abspath wd p) ''/''"
  unfolding abspath_def
  by (rule normpath_absolute) (auto simp: path_join_def startswith_slash_iff)

lemma is_within_directory_located:
  "startswith wd ''/'' \<Longrightarrow>
   is_within_directory wd base_dir target_path =
     Inr (prefix (locate wd base_dir) (locate wd target_path))"
  by (simp add: is_within_directory_prefix abspath_absolute)

section \<open>Properties of the secure extractor\<close>

text \<open>A member escapes the destination when the location of the joined path is neither
  the location of the destination nor below it.\<close>

definition escapes :: "string \<Rightarrow> string \<Rightarrow> string \<Rightarrow> bool" where
  "escapes wd destination member =
     (\<not> prefix (locate wd destination) (locate wd (path_join destination member)))"

lemma check_members_find:
  assumes "startswith (cwd w) ''/''"
  shows "check_members d ms w =
           (case find (escapes (cwd w) d) ms of
              None \<Rightarrow> (Inr (), w)
            | Some m \<Rightarrow>
                (Inl (SystemExit 1), logs (LogError (''Zip-Slip attempt detected in: '' @ m)) w))"
  using assms
  by (induction ms) (simp_all add: is_within_directory_located escapes_def Let_def)

text \<open>
  Claim C2. \<open>extract_7z\<close> checks every name of the archive before the library writes
  anything. When some member escapes the destination, the run ends with exit status 1
  at the first such member, in the world it started in but for the log record:
  \<open>extractall\<close> has not run, so no member at all is extracted. When no member escapes,
  \<open>extractall\<close> runs once, on the unchanged world.
\<close>

theorem extract_7z_validates_all_first:
  assumes wd: "startswith (cwd w) ''/''"
    and rd: "read_file w source_file = Inr bytes"
    and nm: "names7z lib bytes = Inr file_list"
  shows "(\<forall>member. find (escapes (cwd w) destination_dir) file_list = Some member \<longrightarrow>
            extract_7z lib source_file destination_dir w =
              (Inl (SystemExit 1),
               logs (LogError (''Zip-Slip attempt detected in: '' @ member)) w))
       \<and> (find (escapes (cwd w) destination_dir) file_list = None \<longrightarrow>
            extract_7z lib source_file destination_dir w =
              extraction_handler source_file
                (case extractall lib bytes destination_dir w of
                   (Inl e, w2) \<Rightarrow> (Inl e, w2)
                 | (Inr u, w2) \<Rightarrow>
                     (Inr (), logs (LogInfo (''Archive '' @ source_file
                                  @ '' extracted successfully to '' @ destination_dir)) w2)))"
  by (simp add: extract_7z_def rd nm check_members_find [OF wd] extraction_handler_def)



lemma makedirs_wlog: "makedirs name w = (r, w1) \<Longrightarrow> wlog w1 = wlog w"
  by (auto simp: makedirs_def split: if_splits prod.splits)
















definition demo_world :: world where
  "demo_world =
     \<lparr>fs = [[''out''] \<mapsto> Dir, [''b''] \<mapsto> Dir, [''b'', ''a.zip''] \<mapsto> File [80, 75],
             [''b'', ''a.7z''] \<mapsto> File [55, 122]],
      cwd = ''/home/u'', wlog = []\<rparr>"


lemmas path_eval =
  path_join_def startswith_def endswith_def normpath_def norm_step_def abspath_def
  path_parts_def commonpath_def dirname_def rstrip_def locate_def Let_def

lemmas fs_eval =
  lookup_def node_at_def makedirs_def open_wb_def write_at_def read_file_def logs_def





definition demo_7z :: sevenz_lib where
  "demo_7z =
     \<lparr>names7z = (\<lambda>bytes. Inr [''ok.txt'', ''../../evil.txt'']),
      extractall = (\<lambda>bytes destination_dir w.
        (Inr (), w\<lparr>fs := (fs w)([''evil.txt''] \<mapsto> File [9])\<rparr>))\<rparr>"

theorem extract_7z_validates_all_first_witness:
  "extract_7z demo_7z ''/b/a.7z'' ''/out'' demo_world =
     (Inl (SystemExit 1),
      logs (LogError ''Zip-Slip attempt detected in: ../../evil.txt'') demo_world)"
proof -
  have wd: "startswith (cwd demo_world) ''/''"
    by (simp add: demo_world_def startswith_def)
  have rd: "read_file demo_world ''/b/a.7z'' = Inr [55, 122]"
    by (simp add: demo_world_def fs_eval path_eval)
  have nm: "names7z demo_7z [55, 122] = Inr [''ok.txt'', ''../../evil.txt'']"
    by (simp add: demo_7z_def)
  have fd: "find (escapes (cwd demo_world) ''/out'') [''ok.txt'', ''../../evil.txt'']
              = Some ''../../evil.txt''"
    by (simp add: escapes_def demo_world_def path_eval)
  from extract_7z_validates_all_first [OF wd rd nm, of "''/out''"] fd
  show ?thesis by simp
qed

end
